theory Spec2Isabelle
  imports Main "HOL-Library.Word"
begin

unbundle bit_operations_syntax

section \<open>NXP i.MX6UL configuration and support (soc/nxp/imx6ul/imx6ul.go)\<close>

type_synonym u8 = "8 word"
type_synonym u32 = "32 word"

subsection \<open>Memory-mapped hardware\<close>

text \<open>
  The SoC is seen through its 32-bit memory-mapped registers. The state holds the register
  contents and, as an observation device, the journal of every register access made so
  far (oldest first), so that "no register is touched" and "this access comes before that
  one" can be stated. The secure-storage block's hardware-latched availability flag is
  kept as a flag of its own: the spec names no register for it.
\<close>

datatype access = Load u32 | Store u32 u32

record hw =
  regs :: "u32 \<Rightarrow> u32"
  journal :: "access list"
  snvs_available :: bool

text \<open>
  Modelled from the spec: \<open>reg.Read\<close> of package internal/reg, which is not part of
  the file verified here. The spec (section 7): plain register reads cannot fail, the
  memory is always mapped. A read returns the register's contents and leaves them as
  they are.
\<close>

definition reg_Read :: "u32 \<Rightarrow> hw \<Rightarrow> u32 \<times> hw" where
  "reg_Read addr h = (regs h addr, h\<lparr>journal := journal h @ [Load addr]\<rparr>)"

text \<open>
  Modelled from the spec: the register write of the same package. The spec
  (section 4.2): the control register is written back; the write replaces the contents
  of the one register addressed.
\<close>

definition reg_Write :: "u32 \<Rightarrow> u32 \<Rightarrow> hw \<Rightarrow> hw" where
  "reg_Write addr v h = h\<lparr>regs := (regs h)(addr := v), journal := journal h @ [Store addr v]\<rparr>"

subsection \<open>Peripheral registers (const block)\<close>

definition CSU_BASE :: u32 where "CSU_BASE = 0x021c0000"
definition DCP_BASE :: u32 where "DCP_BASE = 0x02280000"
definition GIC_BASE :: u32 where "GIC_BASE = 0x00a00000"
definition GPIO1_BASE :: u32 where "GPIO1_BASE = 0x0209c000"
definition GPIO2_BASE :: u32 where "GPIO2_BASE = 0x020a0000"
definition GPIO3_BASE :: u32 where "GPIO3_BASE = 0x020a4000"
definition GPIO4_BASE :: u32 where "GPIO4_BASE = 0x020a8000"
definition GPIO5_BASE :: u32 where "GPIO5_BASE = 0x020ac000"
definition I2C1_BASE :: u32 where "I2C1_BASE = 0x021a0000"
definition I2C2_BASE :: u32 where "I2C2_BASE = 0x021a4000"
definition OCOTP_BASE :: u32 where "OCOTP_BASE = 0x021bc000"
definition OCOTP_BANK_BASE :: u32 where "OCOTP_BANK_BASE = 0x021bc400"
definition OCRAM_START :: u32 where "OCRAM_START = 0x00900000"
definition OCRAM_SIZE :: u32 where "OCRAM_SIZE = 0x20000"
definition RNGB_BASE :: u32 where "RNGB_BASE = 0x02284000"
definition SNVS_BASE :: u32 where "SNVS_BASE = 0x020cc000"
definition TZASC_BASE :: u32 where "TZASC_BASE = 0x021d0000"
definition TZASC_BYPASS :: u32 where "TZASC_BYPASS = 0x020e4024"
definition IOMUXC_GPR_GPR1 :: u32 where "IOMUXC_GPR_GPR1 = 0x020e4004"
definition GPR1_TZASC1_BOOT_LOCK :: nat where "GPR1_TZASC1_BOOT_LOCK = 23"
definition UART1_BASE :: u32 where "UART1_BASE = 0x02020000"
definition UART2_BASE :: u32 where "UART2_BASE = 0x021e8000"
definition UART3_BASE :: u32 where "UART3_BASE = 0x021ec000"
definition UART4_BASE :: u32 where "UART4_BASE = 0x021f0000"
definition USB_ANALOG1_BASE :: u32 where "USB_ANALOG1_BASE = 0x020c81a0"
definition USB_ANALOG2_BASE :: u32 where "USB_ANALOG2_BASE = 0x020c8200"
definition USB_ANALOG_DIGPROG :: u32 where "USB_ANALOG_DIGPROG = 0x020c8260"
definition USBPHY1_BASE :: u32 where "USBPHY1_BASE = 0x020c9000"
definition USBPHY2_BASE :: u32 where "USBPHY2_BASE = 0x020ca000"
definition USB1_BASE :: u32 where "USB1_BASE = 0x02184000"
definition USB2_BASE :: u32 where "USB2_BASE = 0x02184200"
definition USDHC1_BASE :: u32 where "USDHC1_BASE = 0x02190000"
definition USDHC2_BASE :: u32 where "USDHC2_BASE = 0x02194000"

subsection \<open>SiliconVersion\<close>

text \<open>
  \<^verbatim>\<open>
  func SiliconVersion() (sv, family, revMajor, revMinor uint32) {
      sv = reg.Read(USB_ANALOG_DIGPROG)
      family = (sv >> 16) & 0xff
      revMajor = (sv >> 8) & 0xff
      revMinor = sv & 0xff
      return
  }
  \<close>
\<close>

definition SiliconVersion :: "hw \<Rightarrow> (u32 \<times> u32 \<times> u32 \<times> u32) \<times> hw" where
  "SiliconVersion h =
     (case reg_Read USB_ANALOG_DIGPROG h of
        (sv, h') \<Rightarrow>
          (let family = (drop_bit 16 sv) AND 0xff;
               revMajor = (drop_bit 8 sv) AND 0xff;
               revMinor = sv AND 0xff
           in ((sv, family, revMajor, revMinor), h')))"

subsection \<open>Clock gating\<close>

text \<open>
  The clock control register addresses \<open>CCM_CCGRn\<close> and the gate field positions
  \<open>CCGRx_CGn\<close> that the descriptors name are declared in another file of the package.
  They are taken as parameters; nothing is assumed about their values.
\<close>

record clock_consts =
  CCM_CCGR1 :: u32
  CCM_CCGR2 :: u32
  CCM_CCGR6 :: u32
  CCGRx_CG0 :: nat
  CCGRx_CG1 :: nat
  CCGRx_CG2 :: nat
  CCGRx_CG3 :: nat
  CCGRx_CG5 :: nat
  CCGRx_CG6 :: nat
  CCGRx_CG14 :: nat

text \<open>
  The gate positions of a control register: 0, 2, 4, ..., 30 (sixteen two-bit fields
  in a 32-bit register).
\<close>

definition gate_positions :: "nat list" where
  "gate_positions = [0, 2, 4, 6, 8, 10, 12, 14, 16, 18, 20, 22, 24, 26, 28, 30]"

text \<open>
  Modelled from the spec: the clock-gate enable primitive that every driver runs before
  its first register access; its code (package internal/reg and the drivers) is not part
  of the file verified here. The spec (section 4.2): read the 32-bit control register,
  clear exactly the 2-bit field at the target bit position, set it to the "enabled"
  encoding, write the register back. The encoding is a 2-bit value, which the spec does
  not fix: it is the parameter \<open>en\<close>.
\<close>

definition clock_gate_enable :: "2 word \<Rightarrow> u32 \<Rightarrow> nat \<Rightarrow> hw \<Rightarrow> hw" where
  "clock_gate_enable en ccgr p h =
     (case reg_Read ccgr h of
        (r, h1) \<Rightarrow>
          (let cleared = r AND NOT (push_bit p 3);
               r' = cleared OR push_bit p (ucast en)
           in reg_Write ccgr r' h1))"

text \<open>The gate field at position \<open>p\<close> of a control register's value.\<close>

definition gate_field :: "u32 \<Rightarrow> nat \<Rightarrow> 2 word" where
  "gate_field r p = ucast (drop_bit p r)"

subsection \<open>Peripheral instances (var block)\<close>

text \<open>
  The descriptor types belong to the driver packages; each is modelled with the fields
  the composite literals of this file set. A field holding a function reference
  (\<open>Clock: GetUARTClock\<close>) holds the name of the function: the literal stores the
  reference and does not call it.
\<close>

datatype arm_cpu = CPU

datatype callback = GetUARTClock | EnableUSBPLL | SetUSDHCClock

record csu =
  Base :: u32
  CCGR :: u32
  CG :: nat

record dcp =
  Base :: u32

record gpio =
  Index :: int
  Base :: u32

record i2c =
  Index :: int
  Base :: u32
  CCGR :: u32
  CG :: nat

record ocotp =
  Base :: u32
  BankBase :: u32
  CCGR :: u32
  CG :: nat

record rngb =
  Base :: u32

record snvs =
  Base :: u32

record tzasc =
  Base :: u32
  Bypass :: u32
  SecureBootLockReg :: u32
  SecureBootLockPos :: nat

record uart =
  Index :: int
  Base :: u32
  Clock :: callback

record usb =
  Index :: int
  Base :: u32
  CCGR :: u32
  CG :: nat
  Analog :: u32
  PHY :: u32
  EnablePLL :: callback

record usdhc =
  Index :: int
  Base :: u32
  CCGR :: u32
  CG :: nat
  SetClock :: callback

definition ARM :: arm_cpu where
  "ARM = CPU"

definition CSU :: "clock_consts \<Rightarrow> csu" where
  "CSU c = \<lparr>csu.Base = CSU_BASE, csu.CCGR = CCM_CCGR1 c, csu.CG = CCGRx_CG14 c\<rparr>"

definition DCP :: dcp where
  "DCP = \<lparr>dcp.Base = DCP_BASE\<rparr>"

definition GPIO1 :: gpio where
  "GPIO1 = \<lparr>gpio.Index = 1, gpio.Base = GPIO1_BASE\<rparr>"

definition GPIO2 :: gpio where
  "GPIO2 = \<lparr>gpio.Index = 2, gpio.Base = GPIO2_BASE\<rparr>"

definition GPIO3 :: gpio where
  "GPIO3 = \<lparr>gpio.Index = 3, gpio.Base = GPIO3_BASE\<rparr>"

definition GPIO4 :: gpio where
  "GPIO4 = \<lparr>gpio.Index = 4, gpio.Base = GPIO4_BASE\<rparr>"

definition GPIO5 :: gpio where
  "GPIO5 = \<lparr>gpio.Index = 5, gpio.Base = GPIO5_BASE\<rparr>"

definition I2C1 :: "clock_consts \<Rightarrow> i2c" where
  "I2C1 c = \<lparr>i2c.Index = 1, i2c.Base = I2C1_BASE, i2c.CCGR = CCM_CCGR2 c,
             i2c.CG = CCGRx_CG3 c\<rparr>"

definition I2C2 :: "clock_consts \<Rightarrow> i2c" where
  "I2C2 c = \<lparr>i2c.Index = 2, i2c.Base = I2C2_BASE, i2c.CCGR = CCM_CCGR2 c,
             i2c.CG = CCGRx_CG5 c\<rparr>"

definition OCOTP :: "clock_consts \<Rightarrow> ocotp" where
  "OCOTP c = \<lparr>ocotp.Base = OCOTP_BASE, ocotp.BankBase = OCOTP_BANK_BASE,
              ocotp.CCGR = CCM_CCGR2 c, ocotp.CG = CCGRx_CG6 c\<rparr>"

definition RNGB :: rngb where
  "RNGB = \<lparr>rngb.Base = RNGB_BASE\<rparr>"

definition SNVS :: snvs where
  "SNVS = \<lparr>snvs.Base = SNVS_BASE\<rparr>"

definition TZASC :: tzasc where
  "TZASC = \<lparr>tzasc.Base = TZASC_BASE, tzasc.Bypass = TZASC_BYPASS,
            tzasc.SecureBootLockReg = IOMUXC_GPR_GPR1,
            tzasc.SecureBootLockPos = GPR1_TZASC1_BOOT_LOCK\<rparr>"

definition UART1 :: uart where
  "UART1 = \<lparr>uart.Index = 1, uart.Base = UART1_BASE, uart.Clock = GetUARTClock\<rparr>"

definition UART2 :: uart where
  "UART2 = \<lparr>uart.Index = 2, uart.Base = UART2_BASE, uart.Clock = GetUARTClock\<rparr>"

definition USB1 :: "clock_consts \<Rightarrow> usb" where
  "USB1 c = \<lparr>usb.Index = 1, usb.Base = USB1_BASE, usb.CCGR = CCM_CCGR6 c,
             usb.CG = CCGRx_CG0 c, usb.Analog = USB_ANALOG1_BASE, usb.PHY = USBPHY1_BASE,
             usb.EnablePLL = EnableUSBPLL\<rparr>"

definition USB2 :: "clock_consts \<Rightarrow> usb" where
  "USB2 c = \<lparr>usb.Index = 2, usb.Base = USB2_BASE, usb.CCGR = CCM_CCGR6 c,
             usb.CG = CCGRx_CG0 c, usb.Analog = USB_ANALOG2_BASE, usb.PHY = USBPHY2_BASE,
             usb.EnablePLL = EnableUSBPLL\<rparr>"

definition USDHC1 :: "clock_consts \<Rightarrow> usdhc" where
  "USDHC1 c = \<lparr>usdhc.Index = 1, usdhc.Base = USDHC1_BASE, usdhc.CCGR = CCM_CCGR6 c,
               usdhc.CG = CCGRx_CG1 c, usdhc.SetClock = SetUSDHCClock\<rparr>"

definition USDHC2 :: "clock_consts \<Rightarrow> usdhc" where
  "USDHC2 c = \<lparr>usdhc.Index = 2, usdhc.Base = USDHC2_BASE, usdhc.CCGR = CCM_CCGR6 c,
               usdhc.CG = CCGRx_CG2 c, usdhc.SetClock = SetUSDHCClock\<rparr>"

text \<open>
  The package-level variables together, in the order of the var block: each name with
  the instance it is bound to.
\<close>

datatype peripheral =
    Arm arm_cpu | Csu csu | Dcp dcp | Gpio gpio | I2c i2c | Ocotp ocotp | Rngb rngb
  | Snvs snvs | Tzasc tzasc | Uart uart | Usb usb | Usdhc usdhc

definition Peripheral_instances :: "clock_consts \<Rightarrow> (string \<times> peripheral) list" where
  "Peripheral_instances c =
     [(''ARM'', Arm ARM), (''CSU'', Csu (CSU c)), (''DCP'', Dcp DCP),
      (''GPIO1'', Gpio GPIO1), (''GPIO2'', Gpio GPIO2), (''GPIO3'', Gpio GPIO3),
      (''GPIO4'', Gpio GPIO4), (''GPIO5'', Gpio GPIO5),
      (''I2C1'', I2c (I2C1 c)), (''I2C2'', I2c (I2C2 c)), (''OCOTP'', Ocotp (OCOTP c)),
      (''RNGB'', Rngb RNGB), (''SNVS'', Snvs SNVS), (''TZASC'', Tzasc TZASC),
      (''UART1'', Uart UART1), (''UART2'', Uart UART2),
      (''USB1'', Usb (USB1 c)), (''USB2'', Usb (USB2 c)),
      (''USDHC1'', Usdhc (USDHC1 c)), (''USDHC2'', Usdhc (USDHC2 c))]"

text \<open>
  Initialising the variables evaluates the composite literals above and nothing else:
  the hardware state goes through as it is.
\<close>

definition init_instances :: "clock_consts \<Rightarrow> hw \<Rightarrow> (string \<times> peripheral) list \<times> hw" where
  "init_instances c h = (Peripheral_instances c, h)"

fun base_of :: "peripheral \<Rightarrow> u32 option" where
  "base_of (Arm d) = None"
| "base_of (Csu d) = Some (csu.Base d)"
| "base_of (Dcp d) = Some (dcp.Base d)"
| "base_of (Gpio d) = Some (gpio.Base d)"
| "base_of (I2c d) = Some (i2c.Base d)"
| "base_of (Ocotp d) = Some (ocotp.Base d)"
| "base_of (Rngb d) = Some (rngb.Base d)"
| "base_of (Snvs d) = Some (snvs.Base d)"
| "base_of (Tzasc d) = Some (tzasc.Base d)"
| "base_of (Uart d) = Some (uart.Base d)"
| "base_of (Usb d) = Some (usb.Base d)"
| "base_of (Usdhc d) = Some (usdhc.Base d)"

fun gate_of :: "peripheral \<Rightarrow> (u32 \<times> nat) option" where
  "gate_of (Csu d) = Some (csu.CCGR d, csu.CG d)"
| "gate_of (I2c d) = Some (i2c.CCGR d, i2c.CG d)"
| "gate_of (Ocotp d) = Some (ocotp.CCGR d, ocotp.CG d)"
| "gate_of (Usb d) = Some (usb.CCGR d, usb.CG d)"
| "gate_of (Usdhc d) = Some (usdhc.CCGR d, usdhc.CG d)"
| "gate_of _ = None"

text \<open>The constants of the const block whose name ends in \<open>_BASE\<close>, in its order.\<close>

definition BASE_constants :: "u32 list" where
  "BASE_constants =
     [CSU_BASE, DCP_BASE, GIC_BASE, GPIO1_BASE, GPIO2_BASE, GPIO3_BASE, GPIO4_BASE,
      GPIO5_BASE, I2C1_BASE, I2C2_BASE, OCOTP_BASE, OCOTP_BANK_BASE, RNGB_BASE, SNVS_BASE,
      TZASC_BASE, UART1_BASE, UART2_BASE, UART3_BASE, UART4_BASE, USB_ANALOG1_BASE,
      USB_ANALOG2_BASE, USBPHY1_BASE, USBPHY2_BASE, USB1_BASE, USB2_BASE, USDHC1_BASE,
      USDHC2_BASE]"

subsection \<open>The fuse box driver\<close>

text \<open>
  \<open>OCOTP.Init\<close> and \<open>OCOTP.Read\<close> are methods of package soc/nxp/ocotp, which is not
  part of the file verified here. \<open>UniqueID\<close> takes them as a parameter: any pair of
  functions over any driver state \<open>'s\<close>. A Go result \<open>(value uint32, err error)\<close> is the
  pair of the value and the optional error.
\<close>

datatype error = Error string

record 's ocotp_methods =
  Init :: "ocotp \<Rightarrow> 's \<Rightarrow> 's"
  Read :: "ocotp \<Rightarrow> int \<Rightarrow> int \<Rightarrow> 's \<Rightarrow> (u32 \<times> error option) \<times> 's"

text \<open>
  Modelled from the spec: \<open>OCOTP.Init\<close>. The spec (section 4.4): idempotent, safe to
  call repeatedly, performs its own clock-gate enable and internal calibration. The
  spec says nothing more of the calibration; the model is the clock-gate enable on the
  descriptor's control register and gate field.
\<close>

definition OCOTP_Init :: "2 word \<Rightarrow> ocotp \<Rightarrow> hw \<Rightarrow> hw" where
  "OCOTP_Init en d h = clock_gate_enable en (ocotp.CCGR d) (ocotp.CG d) h"

text \<open>
  Modelled from the spec: \<open>OCOTP.Read\<close>. The spec (sections 4.4, 5 and 7): a fuse read
  polls a hardware busy flag under a bounded timeout; it either completes with the fuse
  word or fails with a busy/timeout condition. Neither the busy flag nor the address of
  a fuse word is in the spec: \<open>busy\<close> says whether the controller stays busy for the
  whole timeout, \<open>fuse_addr\<close> gives the register of a bank and word. A failed read
  returns the zero value with its error.
\<close>

definition OCOTP_Read ::
  "(hw \<Rightarrow> bool) \<Rightarrow> (ocotp \<Rightarrow> int \<Rightarrow> int \<Rightarrow> u32) \<Rightarrow> ocotp \<Rightarrow> int \<Rightarrow> int \<Rightarrow> hw
     \<Rightarrow> (u32 \<times> error option) \<times> hw" where
  "OCOTP_Read busy fuse_addr d bank word h =
     (if busy h then ((0, Some (Error ''busy'')), h)
      else (case reg_Read (fuse_addr d bank word) h of (v, h') \<Rightarrow> ((v, None), h')))"

definition ocotp_driver ::
  "2 word \<Rightarrow> (hw \<Rightarrow> bool) \<Rightarrow> (ocotp \<Rightarrow> int \<Rightarrow> int \<Rightarrow> u32) \<Rightarrow> hw ocotp_methods" where
  "ocotp_driver en busy fuse_addr = \<lparr>Init = OCOTP_Init en, Read = OCOTP_Read busy fuse_addr\<rparr>"

text \<open>
  Two observation devices over any driver: \<open>traced\<close> records the method calls in the
  order they are made, \<open>ignore_errors\<close> replaces the error of every read by \<open>nil\<close>.
\<close>

datatype call = InitCall | ReadCall int int

definition traced :: "'s ocotp_methods \<Rightarrow> (call list \<times> 's) ocotp_methods" where
  "traced m =
     \<lparr>Init = (\<lambda>d (t, s). (t @ [InitCall], Init m d s)),
      Read = (\<lambda>d bank word (t, s).
                case Read m d bank word s of (r, s') \<Rightarrow> (r, (t @ [ReadCall bank word], s')))\<rparr>"


subsection \<open>UniqueID\<close>

text \<open>
  Go's slices and \<open>binary.LittleEndian.PutUint32\<close>. \<open>a[lo:hi]\<close> panics unless
  \<open>lo \<le> hi \<le> len(a)\<close>; the slice shares the array's storage, so a write to the slice
  is a write to the array at offset \<open>lo\<close> (\<open>store_slice\<close>). \<open>PutUint32\<close> panics on a
  slice shorter than four bytes and otherwise sets
  \<open>b[0] = byte(v)\<close>, \<open>b[1] = byte(v >> 8)\<close>, \<open>b[2] = byte(v >> 16)\<close>,
  \<open>b[3] = byte(v >> 24)\<close>. A panic is \<open>None\<close>.
\<close>

definition slice :: "'a list \<Rightarrow> nat \<Rightarrow> nat \<Rightarrow> 'a list option" where
  "slice a lo hi = (if lo \<le> hi \<and> hi \<le> length a then Some (take (hi - lo) (drop lo a)) else None)"

definition store_slice :: "'a list \<Rightarrow> nat \<Rightarrow> 'a list \<Rightarrow> 'a list" where
  "store_slice a lo b = take lo a @ b @ drop (lo + length b) a"

definition PutUint32 :: "u8 list \<Rightarrow> u32 \<Rightarrow> u8 list option" where
  "PutUint32 b v =
     (if length b < 4 then None
      else Some (b[0 := ucast v, 1 := ucast (drop_bit 8 v), 2 := ucast (drop_bit 16 v),
                   3 := ucast (drop_bit 24 v)]))"

definition PutUint32_slice :: "u8 list \<Rightarrow> nat \<Rightarrow> nat \<Rightarrow> u32 \<Rightarrow> u8 list option" where
  "PutUint32_slice a lo hi v =
     (case slice a lo hi of
        None \<Rightarrow> None
      | Some b \<Rightarrow> (case PutUint32 b v of None \<Rightarrow> None | Some b' \<Rightarrow> Some (store_slice a lo b')))"

text \<open>
  \<^verbatim>\<open>
  func UniqueID() (uid [8]byte) {
      OCOTP.Init()
      cfg0, _ := OCOTP.Read(0, 1)
      cfg1, _ := OCOTP.Read(0, 2)
      binary.LittleEndian.PutUint32(uid[0:4], cfg0)
      binary.LittleEndian.PutUint32(uid[4:8], cfg1)
      return
  }
  \<close>
  The result is the identifier, or \<open>None\<close> had the function panicked, with the driver
  state after the three calls.
\<close>

definition UniqueID :: "'s ocotp_methods \<Rightarrow> clock_consts \<Rightarrow> 's \<Rightarrow> u8 list option \<times> 's" where
  "UniqueID m c s0 =
     (let s1 = Init m (OCOTP c) s0 in
      case Read m (OCOTP c) 0 1 s1 of
        (r0, s2) \<Rightarrow>
          (case Read m (OCOTP c) 0 2 s2 of
             (r1, s3) \<Rightarrow>
               (let cfg0 = fst r0; cfg1 = fst r1; uid = replicate 8 0 in
                (case PutUint32_slice uid 0 4 cfg0 of
                   None \<Rightarrow> (None, s3)
                 | Some uid' \<Rightarrow> (PutUint32_slice uid' 4 8 cfg1, s3)))))"

subsection \<open>Model\<close>

text \<open>
  \<^verbatim>\<open>
  func Model() (model string) {
      switch Family {
      case IMX6UL:  model = "i.MX6UL"
      case IMX6ULL: model = "i.MX6ULL"
      default:      model = "unknown"
      }
      return
  }
  \<close>
  The variable \<open>Family\<close> and the constants \<open>IMX6UL\<close> and \<open>IMX6ULL\<close> are declared in
  another file of the package: they are parameters. The cases of a Go switch are tried
  in order.
\<close>

definition Model :: "u32 \<Rightarrow> u32 \<Rightarrow> u32 \<Rightarrow> string" where
  "Model IMX6UL IMX6ULL Family =
     (if Family = IMX6UL then ''i.MX6UL''
      else if Family = IMX6ULL then ''i.MX6ULL''
      else ''unknown'')"

subsection \<open>HAB\<close>

text \<open>
  Modelled from the spec: \<open>SNVS.Available\<close> of package soc/nxp/snvs, which is not part
  of the file verified here. The spec (section 4.6): reads the secure-storage
  peripheral's hardware-latched availability flag; side-effect-free, not cached.
\<close>

definition SNVS_Available :: "snvs \<Rightarrow> hw \<Rightarrow> bool \<times> hw" where
  "SNVS_Available d h = (snvs_available h, h)"

text \<open>
  \<^verbatim>\<open>
  func HAB() bool {
      return SNVS.Available()
  }
  \<close>
\<close>

definition HAB :: "(snvs \<Rightarrow> 's \<Rightarrow> bool \<times> 's) \<Rightarrow> 's \<Rightarrow> bool \<times> 's" where
  "HAB Available s = Available SNVS s"

subsection \<open>Little-endian bytes\<close>

text \<open>
  The four bytes of a word, least significant first, and Go's
  \<open>binary.LittleEndian.Uint32\<close>, which reads them back:
  \<open>uint32(b[0]) | uint32(b[1])<<8 | uint32(b[2])<<16 | uint32(b[3])<<24\<close>.
\<close>

definition le_bytes :: "u32 \<Rightarrow> u8 list" where
  "le_bytes v = [ucast v, ucast (drop_bit 8 v), ucast (drop_bit 16 v), ucast (drop_bit 24 v)]"

definition Uint32 :: "u8 list \<Rightarrow> u32" where
  "Uint32 b =
     ucast (b ! 0) OR push_bit 8 (ucast (b ! 1)) OR push_bit 16 (ucast (b ! 2))
       OR push_bit 24 (ucast (b ! 3))"

subsection \<open>An example configuration\<close>

text \<open>
  Concrete values for the parameters, on which the theorems below are instantiated:
  clock constants, a fuse address map with the words of a bank 16 bytes apart, a
  machine whose registers are all zero, one whose registers all hold \<open>0xA5A5A5A5\<close>,
  and one whose fuse words at bank 0, offsets 1 and 2 are \<open>0x12345678\<close> and
  \<open>0x9ABCDEF0\<close>.
\<close>

definition example_clocks :: clock_consts where
  "example_clocks =
     \<lparr>CCM_CCGR1 = 0x020c406c, CCM_CCGR2 = 0x020c4070, CCM_CCGR6 = 0x020c4080,
      CCGRx_CG0 = 0, CCGRx_CG1 = 2, CCGRx_CG2 = 4, CCGRx_CG3 = 6, CCGRx_CG5 = 10,
      CCGRx_CG6 = 12, CCGRx_CG14 = 28\<rparr>"

definition example_fuse_addr :: "ocotp \<Rightarrow> int \<Rightarrow> int \<Rightarrow> u32" where
  "example_fuse_addr d bank word = ocotp.BankBase d + 0x10 * word_of_int (bank * 8 + word)"

definition blank_hw :: hw where
  "blank_hw = \<lparr>regs = (\<lambda>a. 0), journal = [], snvs_available = False\<rparr>"

definition patterned_hw :: hw where
  "patterned_hw = \<lparr>regs = (\<lambda>a. 0xA5A5A5A5), journal = [], snvs_available = False\<rparr>"

definition fused_hw :: hw where
  "fused_hw =
     \<lparr>regs = (\<lambda>a. if a = 0x021bc410 then 0x12345678
                  else if a = 0x021bc420 then 0x9ABCDEF0 else 0),
      journal = [], snvs_available = False\<rparr>"

definition ready_driver :: "hw ocotp_methods" where
  "ready_driver = ocotp_driver 3 (\<lambda>h. False) example_fuse_addr"


section \<open>Properties\<close>

subsection \<open>Silicon version\<close>

lemma ff_mask: "(0xff :: u32) = mask 8"
  by (simp add: mask_eq_exp_minus_1)

lemma low24_fields:
  assumes "take_bit 24 v = take_bit 24 (v' :: u32)"
  shows "(drop_bit 16 v) AND 0xff = (drop_bit 16 v') AND 0xff"
    and "(drop_bit 8 v) AND 0xff = (drop_bit 8 v') AND 0xff"
    and "v AND 0xff = v' AND 0xff"
proof -
  have b: "bit v n = bit v' n" if "n < 24" for n
  proof -
    have "bit v n = bit (take_bit 24 v) n" using that by (simp add: bit_take_bit_iff)
    also have "\<dots> = bit (take_bit 24 v') n" by (simp add: assms)
    also have "\<dots> = bit v' n" using that by (simp add: bit_take_bit_iff)
    finally show ?thesis .
  qed
  show "(drop_bit 16 v) AND 0xff = (drop_bit 16 v') AND 0xff"
    unfolding ff_mask by (rule bit_word_eqI) (auto simp: bit_simps b)
  show "(drop_bit 8 v) AND 0xff = (drop_bit 8 v') AND 0xff"
    unfolding ff_mask by (rule bit_word_eqI) (auto simp: bit_simps b)
  show "v AND 0xff = v' AND 0xff"
    unfolding ff_mask by (rule bit_word_eqI) (auto simp: bit_simps b)
qed

lemma top_byte_low24: "take_bit 24 (push_bit 24 t OR take_bit 24 v) = take_bit 24 (v :: u32)"
  by (rule bit_word_eqI) (auto simp: bit_simps)

lemma SiliconVersion_fst:
  "fst (SiliconVersion h) =
     (regs h USB_ANALOG_DIGPROG,
      (drop_bit 16 (regs h USB_ANALOG_DIGPROG)) AND 0xff,
      (drop_bit 8 (regs h USB_ANALOG_DIGPROG)) AND 0xff,
      regs h USB_ANALOG_DIGPROG AND 0xff)"
  by (simp add: SiliconVersion_def reg_Read_def Let_def)

lemma field_unat: "unat ((drop_bit n (v :: u32)) AND 0xff) = unat v div 2 ^ n mod 256"
  unfolding ff_mask take_bit_eq_mask [symmetric] unsigned_take_bit_eq unat_drop_bit_eq
  by (simp add: take_bit_eq_mod drop_bit_eq_div)

lemma example_low24: "take_bit 24 (push_bit 24 t OR (0x00630105 :: u32)) = take_bit 24 0x00630105"
proof -
  have "take_bit 24 (0x00630105 :: u32) = 0x00630105" by simp
  then show ?thesis using top_byte_low24 [of t "0x00630105"] by simp
qed

text \<open>
  C2. For every value \<open>v\<close> of the identification register, \<open>SiliconVersion\<close>
  returns \<open>v\<close> itself, family \<open>(v >> 16) & 0xFF\<close>, major revision
  \<open>(v >> 8) & 0xFF\<close> and minor revision \<open>v & 0xFF\<close>. Bits 24 to 31 are ignored:
  replacing the top byte of the register by any \<open>t\<close> leaves the three fields as they
  are. For the value \<open>0x00630105\<close> under any top byte the fields are \<open>0x63\<close>,
  \<open>0x01\<close> and \<open>0x05\<close>. Read as numbers, the fields are the third, second and first
  base-256 digits of \<open>v\<close>.
\<close>

theorem SiliconVersion_decode:
  "fst (SiliconVersion h) =
     (regs h USB_ANALOG_DIGPROG,
      (drop_bit 16 (regs h USB_ANALOG_DIGPROG)) AND 0xff,
      (drop_bit 8 (regs h USB_ANALOG_DIGPROG)) AND 0xff,
      regs h USB_ANALOG_DIGPROG AND 0xff)
   \<and> snd (fst (SiliconVersion
         (h\<lparr>regs := (regs h)(USB_ANALOG_DIGPROG :=
                  push_bit 24 t OR take_bit 24 (regs h USB_ANALOG_DIGPROG))\<rparr>))) =
       snd (fst (SiliconVersion h))
   \<and> snd (fst (SiliconVersion
         (h\<lparr>regs := (regs h)(USB_ANALOG_DIGPROG := push_bit 24 t OR 0x00630105)\<rparr>))) =
       (0x63, 0x01, 0x05)
   \<and> unat (fst (snd (fst (SiliconVersion h)))) = unat (regs h USB_ANALOG_DIGPROG) div 65536 mod 256
   \<and> unat (fst (snd (snd (fst (SiliconVersion h))))) = unat (regs h USB_ANALOG_DIGPROG) div 256 mod 256
   \<and> unat (snd (snd (snd (fst (SiliconVersion h))))) = unat (regs h USB_ANALOG_DIGPROG) mod 256"
proof (intro conjI)
  show "fst (SiliconVersion h) =
     (regs h USB_ANALOG_DIGPROG,
      (drop_bit 16 (regs h USB_ANALOG_DIGPROG)) AND 0xff,
      (drop_bit 8 (regs h USB_ANALOG_DIGPROG)) AND 0xff,
      regs h USB_ANALOG_DIGPROG AND 0xff)"
    by (rule SiliconVersion_fst)
  show "snd (fst (SiliconVersion
         (h\<lparr>regs := (regs h)(USB_ANALOG_DIGPROG :=
                  push_bit 24 t OR take_bit 24 (regs h USB_ANALOG_DIGPROG))\<rparr>))) =
       snd (fst (SiliconVersion h))"
    using low24_fields [OF top_byte_low24 [of t "regs h USB_ANALOG_DIGPROG"]]
    by (simp add: SiliconVersion_fst)
  show "snd (fst (SiliconVersion
         (h\<lparr>regs := (regs h)(USB_ANALOG_DIGPROG := push_bit 24 t OR 0x00630105)\<rparr>))) =
       (0x63, 0x01, 0x05)"
    using low24_fields [OF example_low24 [of t]]
    by (simp add: SiliconVersion_fst)
  show "unat (fst (snd (fst (SiliconVersion h)))) = unat (regs h USB_ANALOG_DIGPROG) div 65536 mod 256"
    using field_unat [of 16 "regs h USB_ANALOG_DIGPROG"] by (simp add: SiliconVersion_fst)
  show "unat (fst (snd (snd (fst (SiliconVersion h))))) = unat (regs h USB_ANALOG_DIGPROG) div 256 mod 256"
    using field_unat [of 8 "regs h USB_ANALOG_DIGPROG"] by (simp add: SiliconVersion_fst)
  show "unat (snd (snd (snd (fst (SiliconVersion h))))) = unat (regs h USB_ANALOG_DIGPROG) mod 256"
    using field_unat [of 0 "regs h USB_ANALOG_DIGPROG"] by (simp add: SiliconVersion_fst)
qed

theorem SiliconVersion_decode_witness:
  "fst (SiliconVersion (blank_hw\<lparr>regs := (regs blank_hw)(USB_ANALOG_DIGPROG := 0xAB630105)\<rparr>)) =
     (0xAB630105, 0x63, 0x01, 0x05)"
  using SiliconVersion_decode [of "blank_hw\<lparr>regs := (regs blank_hw)(USB_ANALOG_DIGPROG := 0xAB630105)\<rparr>" 0]
  by simp

subsection \<open>Unique identifier\<close>

lemma replicate8: "replicate 8 (0::u8) = [0, 0, 0, 0, 0, 0, 0, 0]"
  by (simp add: eval_nat_numeral)

lemma put_first:
  "PutUint32_slice (replicate 8 0) 0 4 v = Some (le_bytes v @ [0, 0, 0, 0])"
  unfolding replicate8
  by (simp add: PutUint32_slice_def slice_def PutUint32_def store_slice_def le_bytes_def
      eval_nat_numeral)

lemma put_second:
  "PutUint32_slice (le_bytes u @ [e, f, g, k]) 4 8 v = Some (le_bytes u @ le_bytes v)"
  by (simp add: PutUint32_slice_def slice_def PutUint32_def store_slice_def le_bytes_def
      eval_nat_numeral)

lemma UniqueID_unfold:
  "UniqueID m c s =
     (Some (le_bytes (fst (fst (Read m (OCOTP c) 0 1 (Init m (OCOTP c) s)))) @
            le_bytes (fst (fst (Read m (OCOTP c) 0 2
                        (snd (Read m (OCOTP c) 0 1 (Init m (OCOTP c) s))))))),
      snd (Read m (OCOTP c) 0 2 (snd (Read m (OCOTP c) 0 1 (Init m (OCOTP c) s)))))"
  by (simp add: UniqueID_def Let_def put_first put_second split: prod.split)

lemma Uint32_le_bytes: "Uint32 (le_bytes v) = v"
proof (rule bit_word_eqI)
  fix n :: nat
  assume "n < LENGTH(32)"
  then have n32: "n < 32" by simp
  consider "n < 8" | "8 \<le> n" "n < 16" | "16 \<le> n" "n < 24" | "24 \<le> n"
    by linarith
  then show "bit (Uint32 (le_bytes v)) n = bit v n"
    using n32 by cases (auto simp: Uint32_def le_bytes_def bit_simps)
qed

lemma le_bytes_digit:
  assumes "i < 4"
  shows "unat (le_bytes v ! i) = unat v div 256 ^ i mod 256"
proof -
  have d: "unat (ucast (drop_bit n v) :: u8) = unat v div 2 ^ n mod 256" for n
    unfolding unsigned_ucast_eq unat_drop_bit_eq by (simp add: drop_bit_eq_div take_bit_eq_mod)
  from assms consider "i = 0" | "i = 1" | "i = 2" | "i = 3" by linarith
  then show ?thesis
    using d [of 0] d [of 8] d [of 16] d [of 24]
    by cases (simp_all add: le_bytes_def)
qed

lemma ready_reads:
  "fst (fst (Read ready_driver (OCOTP example_clocks) 0 1
        (Init ready_driver (OCOTP example_clocks) fused_hw))) = 0x12345678"
  "fst (fst (Read ready_driver (OCOTP example_clocks) 0 2
        (snd (Read ready_driver (OCOTP example_clocks) 0 1
               (Init ready_driver (OCOTP example_clocks) fused_hw))))) = 0x9ABCDEF0"
  by (simp_all add: ready_driver_def ocotp_driver_def OCOTP_Read_def OCOTP_Init_def reg_Read_def
      clock_gate_enable_def reg_Write_def Let_def OCOTP_def example_clocks_def fused_hw_def
      example_fuse_addr_def OCOTP_BANK_BASE_def)

text \<open>
  C3. Whatever fuse values \<open>w1\<close> (bank 0, offset 1) and \<open>w2\<close> (bank 0, offset 2) the
  two reads return, \<open>UniqueID\<close> returns the eight bytes of \<open>w1\<close> then \<open>w2\<close>,
  each least-significant byte first: byte \<open>i\<close> is the \<open>i\<close>-th base-256 digit of
  \<open>w1\<close>, byte \<open>4 + i\<close> that of \<open>w2\<close>, and reading each half back little-endian
  gives the word again. For \<open>0x12345678\<close> and \<open>0x9ABCDEF0\<close> the identifier is
  \<open>78 56 34 12 F0 DE BC 9A\<close>.
\<close>

theorem UniqueID_little_endian:
  assumes "fst (fst (Read m (OCOTP c) 0 1 (Init m (OCOTP c) s))) = w1"
    and "fst (fst (Read m (OCOTP c) 0 2 (snd (Read m (OCOTP c) 0 1 (Init m (OCOTP c) s))))) = w2"
  shows "\<exists>uid. fst (UniqueID m c s) = Some uid
     \<and> uid = [ucast w1, ucast (drop_bit 8 w1), ucast (drop_bit 16 w1), ucast (drop_bit 24 w1),
              ucast w2, ucast (drop_bit 8 w2), ucast (drop_bit 16 w2), ucast (drop_bit 24 w2)]
     \<and> (\<forall>i. i < 4 \<longrightarrow> unat (uid ! i) = unat w1 div 256 ^ i mod 256)
     \<and> (\<forall>i. i < 4 \<longrightarrow> unat (uid ! (4 + i)) = unat w2 div 256 ^ i mod 256)
     \<and> Uint32 (take 4 uid) = w1 \<and> Uint32 (drop 4 uid) = w2
     \<and> (w1 = 0x12345678 \<and> w2 = 0x9ABCDEF0 \<longrightarrow>
          uid = [0x78, 0x56, 0x34, 0x12, 0xF0, 0xDE, 0xBC, 0x9A])"
proof -
  let ?uid = "le_bytes w1 @ le_bytes w2"
  have len: "length (le_bytes w1) = 4" by (simp add: le_bytes_def)
  have 1: "fst (UniqueID m c s) = Some ?uid"
    by (simp add: UniqueID_unfold assms)
  have 2: "?uid = [ucast w1, ucast (drop_bit 8 w1), ucast (drop_bit 16 w1), ucast (drop_bit 24 w1),
              ucast w2, ucast (drop_bit 8 w2), ucast (drop_bit 16 w2), ucast (drop_bit 24 w2)]"
    by (simp add: le_bytes_def)
  have 3: "\<forall>i. i < 4 \<longrightarrow> unat (?uid ! i) = unat w1 div 256 ^ i mod 256"
    by (simp add: nth_append len le_bytes_digit)
  have 4: "\<forall>i. i < 4 \<longrightarrow> unat (?uid ! (4 + i)) = unat w2 div 256 ^ i mod 256"
    by (simp add: nth_append len le_bytes_digit)
  have 5: "Uint32 (take 4 ?uid) = w1" "Uint32 (drop 4 ?uid) = w2"
    by (simp_all add: len Uint32_le_bytes)
  have 6: "w1 = 0x12345678 \<and> w2 = 0x9ABCDEF0 \<longrightarrow>
          ?uid = [0x78, 0x56, 0x34, 0x12, 0xF0, 0xDE, 0xBC, 0x9A]"
    by (simp add: le_bytes_def)
  from 1 2 3 4 5 6 show ?thesis by blast
qed

theorem UniqueID_little_endian_witness:
  "fst (fst (Read ready_driver (OCOTP example_clocks) 0 1
        (Init ready_driver (OCOTP example_clocks) fused_hw))) = 0x12345678
   \<and> fst (fst (Read ready_driver (OCOTP example_clocks) 0 2
        (snd (Read ready_driver (OCOTP example_clocks) 0 1
               (Init ready_driver (OCOTP example_clocks) fused_hw))))) = 0x9ABCDEF0
   \<and> fst (UniqueID ready_driver example_clocks fused_hw) =
       Some [0x78, 0x56, 0x34, 0x12, 0xF0, 0xDE, 0xBC, 0x9A]"
  using UniqueID_little_endian [OF ready_reads] ready_reads by auto

subsection \<open>Clock gating\<close>

lemma three_mask: "(3 :: u32) = mask 2"
  by (simp add: mask_eq_exp_minus_1)

lemma bit_en_lt2: "bit (en :: 2 word) j \<Longrightarrow> j < 2"
  using bit_imp_le_length [of en j] by simp

lemma set_field_frame:
  "i \<noteq> p \<Longrightarrow> i \<noteq> Suc p \<Longrightarrow>
   bit ((r AND NOT (push_bit p 3)) OR push_bit p (ucast (en :: 2 word))) i = bit (r :: u32) i"
  unfolding three_mask
  by (auto simp: bit_simps dest!: bit_en_lt2 dest: bit_imp_le_length)

lemma set_field_value:
  "p \<le> 30 \<Longrightarrow> gate_field ((r AND NOT (push_bit p 3)) OR push_bit p (ucast en)) p = en"
  unfolding three_mask gate_field_def
  by (rule bit_word_eqI) (auto simp: bit_simps dest: bit_en_lt2)

lemma set_field_twice:
  "((((r :: u32) AND NOT (push_bit p 3)) OR push_bit p (ucast (en :: 2 word)))
      AND NOT (push_bit p 3)) OR push_bit p (ucast en) =
   (r AND NOT (push_bit p 3)) OR push_bit p (ucast en)"
  by (rule bit_word_eqI) (auto simp: bit_simps)

lemma cge_regs:
  "regs (clock_gate_enable en R p h) =
     (regs h)(R := (regs h R AND NOT (push_bit p 3)) OR push_bit p (ucast en))"
  by (simp add: clock_gate_enable_def reg_Read_def reg_Write_def Let_def)

lemma cge_journal:
  "journal (clock_gate_enable en R p h) =
     journal h @ [Load R, Store R ((regs h R AND NOT (push_bit p 3)) OR push_bit p (ucast en))]"
  by (simp add: clock_gate_enable_def reg_Read_def reg_Write_def Let_def)

lemma gate_positions_le: "p \<in> set gate_positions \<Longrightarrow> p \<le> 30"
  by (auto simp: gate_positions_def)

text \<open>
  C6. For every content of a clock-gate control register \<open>R\<close> and every gate position
  \<open>p\<close> among 0, 2, ..., 30, the clock-gate enable reads \<open>R\<close>, sets the two-bit field at
  \<open>p\<close> to the enabled encoding and writes \<open>R\<close> back: every bit of \<open>R\<close> other than
  \<open>p\<close> and \<open>p + 1\<close> is as it was, the field holds the encoding, no other register
  changes, and the accesses made are one load and one store of \<open>R\<close>.
\<close>

theorem clock_gate_enable_frame:
  assumes "p \<in> set gate_positions"
  shows "(\<forall>i. i \<noteq> p \<and> i \<noteq> p + 1 \<longrightarrow>
            bit (regs (clock_gate_enable en R p h) R) i = bit (regs h R) i)
    \<and> gate_field (regs (clock_gate_enable en R p h) R) p = en
    \<and> (\<forall>a. a \<noteq> R \<longrightarrow> regs (clock_gate_enable en R p h) a = regs h a)
    \<and> journal (clock_gate_enable en R p h) =
        journal h @ [Load R, Store R (regs (clock_gate_enable en R p h) R)]"
proof (intro conjI allI impI)
  have p30: "p \<le> 30" using assms by (rule gate_positions_le)
  show "gate_field (regs (clock_gate_enable en R p h) R) p = en"
    using p30 by (simp add: cge_regs set_field_value)
  show "journal (clock_gate_enable en R p h) =
        journal h @ [Load R, Store R (regs (clock_gate_enable en R p h) R)]"
    by (simp add: cge_journal cge_regs)
next
  fix i :: nat
  assume "i \<noteq> p \<and> i \<noteq> p + 1"
  then show "bit (regs (clock_gate_enable en R p h) R) i = bit (regs h R) i"
    by (simp add: cge_regs set_field_frame)
next
  fix a :: u32
  assume "a \<noteq> R"
  then show "regs (clock_gate_enable en R p h) a = regs h a"
    by (simp add: cge_regs)
qed

theorem clock_gate_enable_frame_witness:
  "12 \<in> set gate_positions
   \<and> regs (clock_gate_enable 3 0x020c4070 12 patterned_hw) 0x020c4070 = 0xA5A5B5A5
   \<and> regs patterned_hw 0x020c4070 = 0xA5A5A5A5
   \<and> gate_field (regs (clock_gate_enable 3 0x020c4070 12 patterned_hw) 0x020c4070) 12 = 3
   \<and> bit (regs (clock_gate_enable 3 0x020c4070 12 patterned_hw) 0x020c4070) 14 =
       bit (regs patterned_hw 0x020c4070) 14
   \<and> regs (clock_gate_enable 3 0x020c4070 12 patterned_hw) 0x020c4080 =
       regs patterned_hw 0x020c4080"
proof -
  have h: "12 \<in> set gate_positions" by (simp add: gate_positions_def)
  have v: "regs (clock_gate_enable 3 0x020c4070 12 patterned_hw) 0x020c4070 = 0xA5A5B5A5"
    "regs patterned_hw 0x020c4070 = 0xA5A5A5A5"
    by (simp_all add: cge_regs patterned_hw_def)
  from clock_gate_enable_frame [OF h, of 3 "0x020c4070" patterned_hw]
  show ?thesis using h v by simp
qed

subsection \<open>Fuse reads\<close>

lemma OCOTP_Read_regs: "regs (snd (OCOTP_Read busy fa d bank word h)) = regs h"
  by (simp add: OCOTP_Read_def reg_Read_def)

lemma OCOTP_Read_journal:
  "journal (snd (OCOTP_Read busy fa d bank word h)) =
     journal h @ (if busy h then [] else [Load (fa d bank word)])"
  by (simp add: OCOTP_Read_def reg_Read_def)

lemma UniqueID_traced:
  "fst (snd (UniqueID (traced m) c (t, s))) = t @ [InitCall, ReadCall 0 1, ReadCall 0 2]"
  by (simp add: UniqueID_unfold traced_def split: prod.split)

lemma UniqueID_driver_state:
  "snd (UniqueID (ocotp_driver en busy fa) c h) =
     snd (OCOTP_Read busy fa (OCOTP c) 0 2
       (snd (OCOTP_Read busy fa (OCOTP c) 0 1 (OCOTP_Init en (OCOTP c) h))))"
  by (simp add: UniqueID_unfold ocotp_driver_def)

lemma example_journal:
  "journal (snd (UniqueID ready_driver example_clocks fused_hw)) =
     [Load 0x020c4070, Store 0x020c4070 0x3000, Load 0x021bc410, Load 0x021bc420]"
  by (simp add: ready_driver_def UniqueID_driver_state OCOTP_Read_journal OCOTP_Init_def
      cge_journal OCOTP_def example_clocks_def fused_hw_def example_fuse_addr_def
      OCOTP_BANK_BASE_def)

text \<open>
  C8. \<open>UniqueID\<close> sets up the fuse box itself. Over any driver, the calls it makes are, in
  this order, \<open>Init\<close>, \<open>Read(0, 1)\<close>, \<open>Read(0, 2)\<close>. \<open>Init\<close> leaves the registers
  the same when it is run again, and after it the gate field of the fuse box holds the
  enabled encoding. So in every run the register accesses start with the load and the
  store of the clock control register that enable the gate; what follows are loads of
  the two fuse words only, and the gate stays enabled to the end.
\<close>

theorem UniqueID_init_before_reads:
  assumes "CCGRx_CG6 c \<in> set gate_positions"
  shows "fst (snd (UniqueID (traced m) c (t, s))) = t @ [InitCall, ReadCall 0 1, ReadCall 0 2]
    \<and> regs (OCOTP_Init en (OCOTP c) (OCOTP_Init en (OCOTP c) h)) = regs (OCOTP_Init en (OCOTP c) h)
    \<and> gate_field (regs (OCOTP_Init en (OCOTP c) h) (CCM_CCGR2 c)) (CCGRx_CG6 c) = en
    \<and> (\<exists>v rest.
          journal (snd (UniqueID (ocotp_driver en busy fa) c h)) =
            journal h @ [Load (CCM_CCGR2 c), Store (CCM_CCGR2 c) v] @ rest
          \<and> gate_field v (CCGRx_CG6 c) = en
          \<and> set rest \<subseteq> {Load (fa (OCOTP c) 0 1), Load (fa (OCOTP c) 0 2)})
    \<and> regs (snd (UniqueID (ocotp_driver en busy fa) c h)) = regs (OCOTP_Init en (OCOTP c) h)"
proof (intro conjI)
  have p30: "CCGRx_CG6 c \<le> 30" using assms by (rule gate_positions_le)
  let ?R = "CCM_CCGR2 c" and ?p = "CCGRx_CG6 c"
  let ?v = "(regs h ?R AND NOT (push_bit ?p 3)) OR push_bit ?p (ucast en)"
  have init: "OCOTP_Init en (OCOTP c) h = clock_gate_enable en ?R ?p h" for h
    by (simp add: OCOTP_Init_def OCOTP_def)
  show "fst (snd (UniqueID (traced m) c (t, s))) = t @ [InitCall, ReadCall 0 1, ReadCall 0 2]"
    by (rule UniqueID_traced)
  show "regs (OCOTP_Init en (OCOTP c) (OCOTP_Init en (OCOTP c) h)) = regs (OCOTP_Init en (OCOTP c) h)"
    by (simp add: init cge_regs set_field_twice)
  show "gate_field (regs (OCOTP_Init en (OCOTP c) h) ?R) ?p = en"
    using p30 by (simp add: init cge_regs set_field_value)
  show "regs (snd (UniqueID (ocotp_driver en busy fa) c h)) = regs (OCOTP_Init en (OCOTP c) h)"
    by (simp add: UniqueID_driver_state OCOTP_Read_regs)
  let ?h1 = "OCOTP_Init en (OCOTP c) h"
  let ?h2 = "snd (OCOTP_Read busy fa (OCOTP c) 0 1 ?h1)"
  let ?rest = "(if busy ?h1 then [] else [Load (fa (OCOTP c) 0 1)]) @
               (if busy ?h2 then [] else [Load (fa (OCOTP c) 0 2)])"
  have j: "journal (snd (UniqueID (ocotp_driver en busy fa) c h)) =
            journal h @ [Load ?R, Store ?R ?v] @ ?rest"
    by (simp add: UniqueID_driver_state OCOTP_Read_journal init cge_journal)
  have g: "gate_field ?v ?p = en"
    using p30 by (rule set_field_value)
  have r: "set ?rest \<subseteq> {Load (fa (OCOTP c) 0 1), Load (fa (OCOTP c) 0 2)}"
    by auto
  from j g r show "\<exists>v rest.
          journal (snd (UniqueID (ocotp_driver en busy fa) c h)) =
            journal h @ [Load ?R, Store ?R v] @ rest
          \<and> gate_field v ?p = en
          \<and> set rest \<subseteq> {Load (fa (OCOTP c) 0 1), Load (fa (OCOTP c) 0 2)}"
    by blast
qed

theorem UniqueID_init_before_reads_witness:
  "CCGRx_CG6 example_clocks \<in> set gate_positions
   \<and> fst (snd (UniqueID (traced ready_driver) example_clocks ([], fused_hw))) =
       [InitCall, ReadCall 0 1, ReadCall 0 2]
   \<and> gate_field (regs (OCOTP_Init 3 (OCOTP example_clocks) fused_hw) (CCM_CCGR2 example_clocks))
        (CCGRx_CG6 example_clocks) = 3
   \<and> journal (snd (UniqueID ready_driver example_clocks fused_hw)) =
       [Load 0x020c4070, Store 0x020c4070 0x3000, Load 0x021bc410, Load 0x021bc420]"
proof -
  have h: "CCGRx_CG6 example_clocks \<in> set gate_positions"
    by (simp add: example_clocks_def gate_positions_def)
  from UniqueID_init_before_reads [OF h, of ready_driver "[]" fused_hw 3 fused_hw]
  show ?thesis using h example_journal by simp
qed




subsection \<open>Model name\<close>

text \<open>
  C4. \<open>Model\<close> is a total function of the family value and has no failure result: it
  is \<open>i.MX6UL\<close> at the UL code, \<open>i.MX6ULL\<close> at the ULL code and \<open>unknown\<close> at every
  other value. The two codes are different constants, as the cases of one switch.
\<close>

theorem Model_total:
  assumes "IMX6UL \<noteq> IMX6ULL"
  shows "Model IMX6UL IMX6ULL IMX6UL = ''i.MX6UL''
    \<and> Model IMX6UL IMX6ULL IMX6ULL = ''i.MX6ULL''
    \<and> (Family \<noteq> IMX6UL \<and> Family \<noteq> IMX6ULL \<longrightarrow> Model IMX6UL IMX6ULL Family = ''unknown'')
    \<and> Model IMX6UL IMX6ULL Family \<in> {''i.MX6UL'', ''i.MX6ULL'', ''unknown''}"
  using assms by (simp add: Model_def)

theorem Model_total_witness:
  "(0x64 :: u32) \<noteq> 0x65
   \<and> Model 0x64 0x65 0x64 = ''i.MX6UL''
   \<and> Model 0x64 0x65 0x65 = ''i.MX6ULL''
   \<and> Model 0x64 0x65 0x63 = ''unknown''"
proof -
  have h: "(0x64 :: u32) \<noteq> 0x65" by simp
  from Model_total [OF h, of "0x63"] show ?thesis using h by simp
qed

subsection \<open>Secure boot state\<close>

text \<open>
  C5. \<open>HAB\<close> returns what \<open>SNVS.Available\<close> returns and does nothing else. With the
  availability read of the spec, every call returns the flag's value in the current
  state and leaves the state as it is: a call after the flag is set to \<open>b\<close> returns
  \<open>b\<close>, two calls with the flag toggled in between return different values, and a
  second call in the state the first one left returns the same as the first.
\<close>

theorem HAB_mirrors_flag:
  "HAB Available s = Available SNVS s
   \<and> HAB SNVS_Available h = (snvs_available h, h)
   \<and> fst (HAB SNVS_Available (h\<lparr>snvs_available := b\<rparr>)) = b
   \<and> fst (HAB SNVS_Available ((snd (HAB SNVS_Available h))\<lparr>snvs_available := \<not> snvs_available h\<rparr>))
       = (\<not> fst (HAB SNVS_Available h))
   \<and> HAB SNVS_Available (snd (HAB SNVS_Available h)) = HAB SNVS_Available h"
  by (simp add: HAB_def SNVS_Available_def)

theorem HAB_mirrors_flag_witness:
  "HAB SNVS_Available blank_hw = (False, blank_hw)
   \<and> fst (HAB SNVS_Available (blank_hw\<lparr>snvs_available := True\<rparr>)) = True"
proof -
  from HAB_mirrors_flag [of SNVS_Available blank_hw blank_hw True]
  have "HAB SNVS_Available blank_hw = (snvs_available blank_hw, blank_hw)"
    and "fst (HAB SNVS_Available (blank_hw\<lparr>snvs_available := True\<rparr>)) = True"
    by blast+
  moreover have "snvs_available blank_hw = False"
    by (simp add: blank_hw_def)
  ultimately show ?thesis by simp
qed

subsection \<open>Peripheral instances\<close>

text \<open>
  C7. Initialising the package-level instances accesses no hardware: the state after
  it is the state before, so no register was loaded or stored and no register changed.
  The clock gate of a peripheral is touched by its \<open>Init\<close> only, as the fuse box's
  shows: run after the initialisation, it makes the first two accesses.
\<close>

theorem init_instances_no_hardware_access:
  "init_instances c h = (Peripheral_instances c, h)
   \<and> journal (snd (init_instances c h)) = journal h
   \<and> regs (snd (init_instances c h)) = regs h
   \<and> journal (OCOTP_Init en (OCOTP c) (snd (init_instances c h))) =
       journal h @ [Load (CCM_CCGR2 c), Store (CCM_CCGR2 c) (regs (OCOTP_Init en (OCOTP c) h) (CCM_CCGR2 c))]"
  by (simp add: init_instances_def OCOTP_Init_def cge_journal cge_regs OCOTP_def)

theorem init_instances_no_hardware_access_witness:
  "snd (init_instances example_clocks fused_hw) = fused_hw
   \<and> journal (snd (init_instances example_clocks fused_hw)) = []
   \<and> journal (OCOTP_Init 3 (OCOTP example_clocks) (snd (init_instances example_clocks fused_hw))) =
       [Load 0x020c4070, Store 0x020c4070 0x3000]"
proof -
  have v: "regs (OCOTP_Init 3 (OCOTP example_clocks) fused_hw) 0x020c4070 = 0x3000"
    by (simp add: OCOTP_Init_def OCOTP_def cge_regs example_clocks_def fused_hw_def)
  have r: "CCM_CCGR2 example_clocks = 0x020c4070"
    by (simp add: example_clocks_def)
  have j: "journal fused_hw = []"
    by (simp add: fused_hw_def)
  from init_instances_no_hardware_access [of example_clocks fused_hw 3]
  have "snd (init_instances example_clocks fused_hw) = fused_hw"
    and "journal (snd (init_instances example_clocks fused_hw)) = journal fused_hw"
    and "journal (OCOTP_Init 3 (OCOTP example_clocks) (snd (init_instances example_clocks fused_hw))) =
       journal fused_hw @ [Load (CCM_CCGR2 example_clocks), Store (CCM_CCGR2 example_clocks)
         (regs (OCOTP_Init 3 (OCOTP example_clocks) fused_hw) (CCM_CCGR2 example_clocks))]"
    by (simp_all add: init_instances_def)
  then show ?thesis
    by (simp add: r j v)
qed

lemmas BASE_defs =
  CSU_BASE_def DCP_BASE_def GIC_BASE_def GPIO1_BASE_def GPIO2_BASE_def GPIO3_BASE_def
  GPIO4_BASE_def GPIO5_BASE_def I2C1_BASE_def I2C2_BASE_def OCOTP_BASE_def OCOTP_BANK_BASE_def
  RNGB_BASE_def SNVS_BASE_def TZASC_BASE_def UART1_BASE_def UART2_BASE_def UART3_BASE_def
  UART4_BASE_def USB_ANALOG1_BASE_def USB_ANALOG2_BASE_def USBPHY1_BASE_def USBPHY2_BASE_def
  USB1_BASE_def USB2_BASE_def USDHC1_BASE_def USDHC2_BASE_def

lemmas instance_defs =
  ARM_def CSU_def DCP_def GPIO1_def GPIO2_def GPIO3_def GPIO4_def GPIO5_def I2C1_def I2C2_def
  OCOTP_def RNGB_def SNVS_def TZASC_def UART1_def UART2_def USB1_def USB2_def USDHC1_def
  USDHC2_def

lemma instance_bases:
  "List.map_filter (base_of \<circ> snd) (Peripheral_instances c) =
     [CSU_BASE, DCP_BASE, GPIO1_BASE, GPIO2_BASE, GPIO3_BASE, GPIO4_BASE, GPIO5_BASE,
      I2C1_BASE, I2C2_BASE, OCOTP_BASE, RNGB_BASE, SNVS_BASE, TZASC_BASE, UART1_BASE,
      UART2_BASE, USB1_BASE, USB2_BASE, USDHC1_BASE, USDHC2_BASE]"
  by (simp add: Peripheral_instances_def List.map_filter_def instance_defs)

text \<open>
  C9. The base addresses of the peripheral instances are pairwise distinct: the nineteen
  instances that have a base address (all but the ARM core) have nineteen different
  ones. So are the \<open>_BASE\<close> constants of the const block, and so are the names of the
  instances.
\<close>

theorem base_addresses_distinct:
  "distinct (List.map_filter (base_of \<circ> snd) (Peripheral_instances c))
   \<and> distinct BASE_constants
   \<and> distinct (map fst (Peripheral_instances c))
   \<and> length (List.map_filter (base_of \<circ> snd) (Peripheral_instances c)) = 19"
proof (intro conjI)
  show "distinct (List.map_filter (base_of \<circ> snd) (Peripheral_instances c))"
    unfolding instance_bases by (simp add: BASE_defs)
  show "distinct BASE_constants"
    unfolding BASE_constants_def by (simp add: BASE_defs)
  show "distinct (map fst (Peripheral_instances c))"
    by (simp add: Peripheral_instances_def)
  show "length (List.map_filter (base_of \<circ> snd) (Peripheral_instances c)) = 19"
    unfolding instance_bases by simp
qed

theorem base_addresses_distinct_witness:
  "List.map_filter (base_of \<circ> snd) (Peripheral_instances example_clocks) =
     [0x021c0000, 0x02280000, 0x0209c000, 0x020a0000, 0x020a4000, 0x020a8000, 0x020ac000,
      0x021a0000, 0x021a4000, 0x021bc000, 0x02284000, 0x020cc000, 0x021d0000, 0x02020000,
      0x021e8000, 0x02184000, 0x02184200, 0x02190000, 0x02194000]
   \<and> distinct (List.map_filter (base_of \<circ> snd) (Peripheral_instances example_clocks))"
  using base_addresses_distinct [of example_clocks]
  by (simp add: instance_bases BASE_defs)

text \<open>
  C10. The two USB controllers name the same clock gate: both carry control register
  \<open>CCM_CCGR6\<close> and gate field \<open>CCGRx_CG0\<close>, so their pairs of register and field are
  equal, the clock-gate enable of one is the clock-gate enable of the other, and after
  either the gate field of the other holds the enabled encoding.
\<close>

theorem USB_shared_clock_gate:
  assumes "CCGRx_CG0 c \<in> set gate_positions"
  shows "usb.CCGR (USB1 c) = CCM_CCGR6 c \<and> usb.CG (USB1 c) = CCGRx_CG0 c
    \<and> usb.CCGR (USB2 c) = CCM_CCGR6 c \<and> usb.CG (USB2 c) = CCGRx_CG0 c
    \<and> gate_of (Usb (USB1 c)) = gate_of (Usb (USB2 c))
    \<and> clock_gate_enable en (usb.CCGR (USB1 c)) (usb.CG (USB1 c)) h =
        clock_gate_enable en (usb.CCGR (USB2 c)) (usb.CG (USB2 c)) h
    \<and> gate_field (regs (clock_gate_enable en (usb.CCGR (USB1 c)) (usb.CG (USB1 c)) h)
          (usb.CCGR (USB2 c))) (usb.CG (USB2 c)) = en
    \<and> gate_field (regs (clock_gate_enable en (usb.CCGR (USB2 c)) (usb.CG (USB2 c)) h)
          (usb.CCGR (USB1 c))) (usb.CG (USB1 c)) = en"
  using gate_positions_le [OF assms]
  by (simp add: USB1_def USB2_def cge_regs set_field_value)

theorem USB_shared_clock_gate_witness:
  "CCGRx_CG0 example_clocks \<in> set gate_positions
   \<and> gate_of (Usb (USB1 example_clocks)) = Some (0x020c4080, 0)
   \<and> gate_of (Usb (USB2 example_clocks)) = Some (0x020c4080, 0)
   \<and> gate_field (regs (clock_gate_enable 3 (usb.CCGR (USB1 example_clocks))
          (usb.CG (USB1 example_clocks)) blank_hw) (usb.CCGR (USB2 example_clocks)))
        (usb.CG (USB2 example_clocks)) = 3"
proof -
  have h: "CCGRx_CG0 example_clocks \<in> set gate_positions"
    by (simp add: example_clocks_def gate_positions_def)
  have g: "gate_of (Usb (USB1 example_clocks)) = Some (0x020c4080, 0)"
    "gate_of (Usb (USB2 example_clocks)) = Some (0x020c4080, 0)"
    by (simp_all add: USB1_def USB2_def example_clocks_def)
  from USB_shared_clock_gate [OF h, of 3 blank_hw]
  have "gate_field (regs (clock_gate_enable 3 (usb.CCGR (USB1 example_clocks))
          (usb.CG (USB1 example_clocks)) blank_hw) (usb.CCGR (USB2 example_clocks)))
        (usb.CG (USB2 example_clocks)) = 3"
    by blast
  with h g show ?thesis by blast
qed


end
